theory Spec2Isabelle
  imports Complex_Main
begin

section \<open>Strings\<close>

text \<open>
  The string operations of \<^verbatim>\<open>scripts/merge_character_loras.py\<close>:
  \<^verbatim>\<open>s.startswith(p)\<close>, \<^verbatim>\<open>sub in s\<close> and \<^verbatim>\<open>s.replace(old, new)\<close>, which replaces
  every occurrence of \<^verbatim>\<open>old\<close>, scanning from the left without overlaps.
\<close>

definition startswith :: "string \<Rightarrow> string \<Rightarrow> bool" where
  "startswith s p = (take (length p) s = p)"

fun contains :: "string \<Rightarrow> string \<Rightarrow> bool" where
  "contains [] sub = (sub = [])"
| "contains (c # cs) sub = (startswith (c # cs) sub \<or> contains cs sub)"

function replace :: "string \<Rightarrow> string \<Rightarrow> string \<Rightarrow> string" where
  "replace [] old new = (if old = [] then new else [])"
| "replace (c # cs) old new =
     (if old = [] then new @ c # replace cs old new
      else if startswith (c # cs) old
        then new @ replace (drop (length old) (c # cs)) old new
      else c # replace cs old new)"
  by pat_completeness auto
termination
  by (relation "measure (\<lambda>(s, old, new). length s)") (auto simp: neq_Nil_conv)

section \<open>Tensors\<close>

text \<open>
  A tensor is its dtype, its shape and its elements in row-major order. Elements are
  rationals and products and sums are exact: the rounding of an arithmetic result is
  not modelled. The one operation that changes stored values because of the dtype is a
  cast \<^verbatim>\<open>t.to(dtype)\<close>; its rounding is a parameter \<open>rnd\<close> of the model, and a cast
  to the dtype the tensor already has returns the tensor itself. The dtypes are the
  floating-point ones; integer tensors, whose products wrap around, are left out.
\<close>

datatype dtype = Float64 | Float32 | Float16 | BFloat16

record tensor =
  dtype :: dtype
  shape :: "nat list"
  data :: "rat list"

type_synonym rounding = "dtype \<Rightarrow> rat \<Rightarrow> rat"

definition to_dtype :: "rounding \<Rightarrow> dtype \<Rightarrow> tensor \<Rightarrow> tensor" where
  "to_dtype rnd d t = (if dtype t = d then t else t\<lparr>dtype := d, data := map (rnd d) (data t)\<rparr>)"

definition exact :: rounding where
  "exact d x = x"

text \<open>\<^verbatim>\<open>t * c\<close> for a Python float \<open>c\<close>: a floating tensor keeps its dtype.\<close>

definition tensor_scale :: "tensor \<Rightarrow> rat \<Rightarrow> tensor" where
  "tensor_scale t c = t\<lparr>data := map (\<lambda>x. x * c) (data t)\<rparr>"

text \<open>\<^verbatim>\<open>a + b\<close>, used by the source only on tensors of one shape and one dtype.\<close>

definition tensor_add :: "tensor \<Rightarrow> tensor \<Rightarrow> tensor" where
  "tensor_add a b = a\<lparr>data := map2 (+) (data a) (data b)\<rparr>"

text \<open>
  What the \<^verbatim>\<open>try\<close> block of \<^verbatim>\<open>apply_lora_to_weights\<close> turns into \<^verbatim>\<open>continue\<close>:
  the \<^verbatim>\<open>else\<close> branch for factor ranks other than 2 and 4, and the RuntimeError of a
  product or of a reshape, caught by \<^verbatim>\<open>except Exception\<close>.
\<close>

datatype skip = UnsupportedDims | ProductFailed | ReshapeFailed

text \<open>
  \<^verbatim>\<open>up @ down\<close> on two 2-dimensional tensors: torch raises when the dtypes differ or
  the inner dimensions differ.
\<close>

definition matmul :: "tensor \<Rightarrow> tensor \<Rightarrow> skip + tensor" where
  "matmul a b =
     (let n = shape a ! 0; k = shape a ! 1; k' = shape b ! 0; m = shape b ! 1 in
      if dtype a = dtype b \<and> k = k'
      then Inr \<lparr>dtype = dtype a, shape = [n, m],
        data = concat (map (\<lambda>i. map (\<lambda>j.
                 (\<Sum>l\<leftarrow>[0..<k]. data a ! (i * k + l) * data b ! (l * m + j)))
                 [0..<m]) [0..<n])\<rparr>
      else Inl ProductFailed)"

text \<open>
  \<^verbatim>\<open>torch.einsum('orhw,rich->oicw', up, down)\<close> on two 4-dimensional tensors. The
  subscripts name the axes of \<open>up\<close> as o, r, h, w and those of \<open>down\<close> as r, i, c, h;
  the output has the axes o, i, c, w, and r and h are summed (the index \<open>a\<close> below
  runs over the axis o). Two axes with one subscript must have one size, or one of
  them has size 1 and is broadcast; otherwise, or when the dtypes differ, torch raises.
\<close>

definition broadcastable :: "nat \<Rightarrow> nat \<Rightarrow> bool" where
  "broadcastable a b = (a = b \<or> a = 1 \<or> b = 1)"

definition broadcast_size :: "nat \<Rightarrow> nat \<Rightarrow> nat" where
  "broadcast_size a b = (if a = 1 then b else a)"

definition bidx :: "nat \<Rightarrow> nat \<Rightarrow> nat" where
  "bidx n j = (if n = 1 then 0 else j)"

definition einsum_orhw_rich_oicw :: "tensor \<Rightarrow> tensor \<Rightarrow> skip + tensor" where
  "einsum_orhw_rich_oicw up down =
     (let no = shape up ! 0; r1 = shape up ! 1; h1 = shape up ! 2; nw = shape up ! 3;
          r2 = shape down ! 0; ni = shape down ! 1; nc = shape down ! 2; h2 = shape down ! 3 in
      if dtype up = dtype down \<and> broadcastable r1 r2 \<and> broadcastable h1 h2
      then Inr \<lparr>dtype = dtype up, shape = [no, ni, nc, nw],
        data = concat (map (\<lambda>a. concat (map (\<lambda>i. concat (map (\<lambda>c. map (\<lambda>w.
                 (\<Sum>r\<leftarrow>[0..<broadcast_size r1 r2]. \<Sum>h\<leftarrow>[0..<broadcast_size h1 h2].
                    data up ! (((a * r1 + bidx r1 r) * h1 + bidx h1 h) * nw + w)
                  * data down ! (((bidx r2 r * ni + i) * nc + c) * h2 + bidx h2 h)))
                 [0..<nw]) [0..<nc])) [0..<ni])) [0..<no])\<rparr>
      else Inl ProductFailed)"

text \<open>\<^verbatim>\<open>t.reshape(sh)\<close>: the same elements under a new shape, or a RuntimeError.\<close>

definition reshape :: "tensor \<Rightarrow> nat list \<Rightarrow> skip + tensor" where
  "reshape t sh = (if prod_list sh = prod_list (shape t) then Inr (t\<lparr>shape := sh\<rparr>)
                   else Inl ReshapeFailed)"

section \<open>Weight sets\<close>

text \<open>
  A checkpoint as \<^verbatim>\<open>load_file\<close> returns it is a dict in file order: an association
  list, read with \<open>map_of\<close>. The working copy \<^verbatim>\<open>merged\<close> is only looked up and updated
  at single keys: a map. The exceptions that leave \<^verbatim>\<open>apply_lora_to_weights\<close> are those
  raised outside its \<^verbatim>\<open>try\<close> block: \<^verbatim>\<open>down.shape[0]\<close> on a 0-dimensional tensor and
  \<^verbatim>\<open>alpha.item()\<close> on a tensor that does not hold exactly one element.
\<close>

type_synonym weights = "string \<rightharpoonup> tensor"
type_synonym checkpoint = "(string \<times> tensor) list"

datatype error = IndexError | ItemError | LoadError

section \<open>Discovery of the adapter groups (lines 55 to 63)\<close>

definition group_of :: "string \<Rightarrow> string option" where
  "group_of key =
     (if contains key ''.lora_down.'' then Some (replace key ''.lora_down.weight'' [])
      else if contains key ''.lora_A.'' then Some (replace key ''.lora_A.weight'' [])
      else None)"

text \<open>
  \<^verbatim>\<open>lora_keys\<close> is a Python set. Its elements are collected here in the order of their
  first insertion; the order in which the \<^verbatim>\<open>for\<close> loop then visits the set is not
  fixed by Python and is the parameter \<open>set_order\<close> of \<open>apply_lora_to_weights\<close>.
\<close>

definition lora_keys :: "checkpoint \<Rightarrow> string list" where
  "lora_keys lora_weights =
     fold (\<lambda>key ks. case group_of key of None \<Rightarrow> ks
                     | Some base_key \<Rightarrow> if base_key \<in> set ks then ks else ks @ [base_key])
       (map fst lora_weights) []"

section \<open>One adapter group (the body of the loop, lines 67 to 149)\<close>

definition select_keys :: "checkpoint \<Rightarrow> string \<Rightarrow> (string \<times> string \<times> string) option" where
  "select_keys lora_weights lora_key =
     (if map_of lora_weights (lora_key @ ''.lora_down.weight'') \<noteq> None
      then Some (lora_key @ ''.lora_down.weight'', lora_key @ ''.lora_up.weight'',
                 lora_key @ ''.alpha'')
      else if map_of lora_weights (lora_key @ ''.lora_A.weight'') \<noteq> None
      then Some (lora_key @ ''.lora_A.weight'', lora_key @ ''.lora_B.weight'',
                 lora_key @ ''.alpha'')
      else None)"

definition item :: "tensor \<Rightarrow> error + rat" where
  "item t = (case data t of [x] \<Rightarrow> Inr x | _ \<Rightarrow> Inl ItemError)"

text \<open>
  Lines 68 to 97: the two factors and the scale of a group, \<open>None\<close> where the loop
  continues because a factor is missing, an error where line 92 or 94 raises.
\<close>

definition read_pair :: "checkpoint \<Rightarrow> string \<Rightarrow> error + (tensor \<times> tensor \<times> rat) option" where
  "read_pair lora_weights lora_key =
     (case select_keys lora_weights lora_key of
        None \<Rightarrow> Inr None
      | Some (down_key, up_key, alpha_key) \<Rightarrow>
         (case map_of lora_weights down_key of
            None \<Rightarrow> Inr None
          | Some down \<Rightarrow>
             (case map_of lora_weights up_key of
                None \<Rightarrow> Inr None
              | Some up \<Rightarrow>
                 (case shape down of
                    [] \<Rightarrow> Inl IndexError
                  | rank # _ \<Rightarrow>
                     (case (case map_of lora_weights alpha_key of
                              None \<Rightarrow> Inr (of_nat rank)
                            | Some a \<Rightarrow> item a) of
                        Inl e \<Rightarrow> Inl e
                      | Inr alpha \<Rightarrow>
                          Inr (Some (down, up,
                                 if rank > 0 then alpha / of_nat rank else 1)))))))"

text \<open>Lines 101 to 122: the candidates, each tried bare and then with \<^verbatim>\<open>.weight\<close>.\<close>

definition base_key_candidates :: "string \<Rightarrow> string list" where
  "base_key_candidates lora_key =
     (let base_key = (if startswith lora_key ''lora_unet_'' then drop 10 lora_key
                      else lora_key) in
      [base_key,
       replace base_key ''_'' ''.'',
       ''model.diffusion_model.'' @ base_key,
       ''model.diffusion_model.'' @ replace base_key ''_'' ''.''])"

fun find_target :: "weights \<Rightarrow> string list \<Rightarrow> string option" where
  "find_target merged [] = None"
| "find_target merged (candidate # rest) =
     (if merged candidate \<noteq> None then Some candidate
      else if merged (candidate @ ''.weight'') \<noteq> None then Some (candidate @ ''.weight'')
      else find_target merged rest)"

definition resolve_key :: "weights \<Rightarrow> string \<Rightarrow> string option" where
  "resolve_key merged lora_key = find_target merged (base_key_candidates lora_key)"

text \<open>Lines 130 to 141: the delta, or the reason why the pair is skipped.\<close>

definition lora_delta :: "tensor \<Rightarrow> tensor \<Rightarrow> rat \<Rightarrow> rat \<Rightarrow> nat list \<Rightarrow> skip + tensor" where
  "lora_delta down up scale strength target_shape =
     (if length (shape down) = 2 \<and> length (shape up) = 2 then
        (case matmul up down of
           Inl e \<Rightarrow> Inl e
         | Inr p \<Rightarrow> Inr (tensor_scale (tensor_scale p scale) strength))
      else if length (shape down) = 4 \<and> length (shape up) = 4 then
        (case einsum_orhw_rich_oicw up down of
           Inl e \<Rightarrow> Inl e
         | Inr p \<Rightarrow>
            (let delta = tensor_scale (tensor_scale p scale) strength in
             if shape delta = target_shape then Inr delta
             else reshape delta target_shape))
      else Inl UnsupportedDims)"

text \<open>Lines 99 to 149, for a group whose factors were read.\<close>

definition merge_pair ::
  "rounding \<Rightarrow> rat \<Rightarrow> string \<Rightarrow> tensor \<times> tensor \<times> rat \<Rightarrow> weights \<times> nat \<Rightarrow> weights \<times> nat" where
  "merge_pair rnd strength lora_key factors st =
     (case factors of (down, up, scale) \<Rightarrow>
      case st of (merged, applied) \<Rightarrow>
       (case resolve_key merged lora_key of
          None \<Rightarrow> (merged, applied)
        | Some target_key \<Rightarrow>
           (case merged target_key of
              None \<Rightarrow> (merged, applied)
            | Some target \<Rightarrow>
               (case lora_delta down up scale strength (shape target) of
                  Inl _ \<Rightarrow> (merged, applied)
                | Inr delta \<Rightarrow>
                   if shape delta = shape target
                   then (merged(target_key \<mapsto>
                           tensor_add (to_dtype rnd (dtype delta) target) delta),
                         applied + 1)
                   else (merged, applied)))))"

definition apply_pair ::
  "rounding \<Rightarrow> checkpoint \<Rightarrow> rat \<Rightarrow> string \<Rightarrow> weights \<times> nat \<Rightarrow> error + weights \<times> nat" where
  "apply_pair rnd lora_weights strength lora_key st =
     (case read_pair lora_weights lora_key of
        Inl e \<Rightarrow> Inl e
      | Inr None \<Rightarrow> Inr st
      | Inr (Some factors) \<Rightarrow> Inr (merge_pair rnd strength lora_key factors st))"

section \<open>apply_lora_to_weights\<close>

fun apply_pairs ::
  "rounding \<Rightarrow> checkpoint \<Rightarrow> rat \<Rightarrow> string list \<Rightarrow> weights \<times> nat \<Rightarrow> error + weights \<times> nat" where
  "apply_pairs rnd lora_weights strength [] st = Inr st"
| "apply_pairs rnd lora_weights strength (lora_key # rest) st =
     (case apply_pair rnd lora_weights strength lora_key st of
        Inl e \<Rightarrow> Inl e
      | Inr st' \<Rightarrow> apply_pairs rnd lora_weights strength rest st')"

text \<open>
  What a call hands back and what it writes to the console. The lines of the console
  that carry data are the count of line 151 and the warnings of lines 175 and 186.
\<close>

datatype line = AppliedPairs nat | NotFound string

record call =
  returned :: weights
  printed :: "line list"

definition apply_lora_to_weights ::
  "(string list \<Rightarrow> string list) \<Rightarrow> rounding \<Rightarrow> weights \<Rightarrow> checkpoint \<Rightarrow> rat \<Rightarrow> error + call" where
  "apply_lora_to_weights set_order rnd base_weights lora_weights strength =
     (case apply_pairs rnd lora_weights strength (set_order (lora_keys lora_weights))
             (base_weights, 0) of
        Inl e \<Rightarrow> Inl e
      | Inr (merged, applied) \<Rightarrow> Inr \<lparr>returned = merged, printed = [AppliedPairs applied]\<rparr>)"

section \<open>merge_loras_for_character\<close>

definition BASE_MODEL :: string where
  "BASE_MODEL = ''models/unet/qwen_image_bf16.safetensors''"

definition OUTPUT_DIR :: string where
  "OUTPUT_DIR = ''models/unet''"

definition COMMON_LORAS :: "(string \<times> rat) list" where
  "COMMON_LORAS =
     [(''models/loras/qwen-boreal-portraits-portraits-high-rank.safetensors'', 6 / 10),
      (''models/loras/Qwen-Image-Lightning-4steps-V2.0.safetensors'', 1)]"

text \<open>
  The files the script reads: a path that does not exist, a file \<^verbatim>\<open>load_file\<close> cannot
  read, or a checkpoint.
\<close>

datatype disk_file = Unreadable | Safetensors checkpoint

type_synonym files = "string \<rightharpoonup> disk_file"

definition load_file :: "files \<Rightarrow> string \<Rightarrow> error + checkpoint" where
  "load_file fs path = (case fs path of Some (Safetensors w) \<Rightarrow> Inr w | _ \<Rightarrow> Inl LoadError)"

text \<open>Lines 169 to 175, and the body of the loop of lines 178 to 186.\<close>

definition apply_lora_file ::
  "(string list \<Rightarrow> string list) \<Rightarrow> rounding \<Rightarrow> files \<Rightarrow> string \<times> rat \<Rightarrow>
   weights \<times> line list \<Rightarrow> error + weights \<times> line list" where
  "apply_lora_file set_order rnd fs entry st =
     (case entry of (lora_path, strength) \<Rightarrow>
      case st of (base_weights, console) \<Rightarrow>
       if fs lora_path = None then Inr (base_weights, console @ [NotFound lora_path])
       else
         (case load_file fs lora_path of
            Inl e \<Rightarrow> Inl e
          | Inr lora_weights \<Rightarrow>
             (case apply_lora_to_weights set_order rnd base_weights lora_weights strength of
                Inl e \<Rightarrow> Inl e
              | Inr r \<Rightarrow> Inr (returned r, console @ printed r))))"

fun apply_lora_files ::
  "(string list \<Rightarrow> string list) \<Rightarrow> rounding \<Rightarrow> files \<Rightarrow> (string \<times> rat) list \<Rightarrow>
   weights \<times> line list \<Rightarrow> error + weights \<times> line list" where
  "apply_lora_files set_order rnd fs [] st = Inr st"
| "apply_lora_files set_order rnd fs (entry # rest) st =
     (case apply_lora_file set_order rnd fs entry st of
        Inl e \<Rightarrow> Inl e
      | Inr st' \<Rightarrow> apply_lora_files set_order rnd fs rest st')"

text \<open>Lines 193 and 194: the cast of the merged weights before they are saved.\<close>

definition merged_bf16 :: "rounding \<Rightarrow> weights \<Rightarrow> weights" where
  "merged_bf16 rnd base_weights =
     (\<lambda>k. map_option (\<lambda>v. if dtype v = Float32 then to_dtype rnd BFloat16 v else v)
            (base_weights k))"

record merge_output =
  saved :: weights
  output_path :: string
  console :: "line list"

definition merge_loras_for_character ::
  "(string list \<Rightarrow> string list) \<Rightarrow> rounding \<Rightarrow> files \<Rightarrow> string \<Rightarrow> string \<Rightarrow> rat \<Rightarrow>
   error + merge_output" where
  "merge_loras_for_character set_order rnd fs character_name character_lora_path
       character_strength =
     (case load_file fs BASE_MODEL of
        Inl e \<Rightarrow> Inl e
      | Inr base_weights \<Rightarrow>
         (case apply_lora_file set_order rnd fs (character_lora_path, character_strength)
                 (map_of base_weights, []) of
            Inl e \<Rightarrow> Inl e
          | Inr st \<Rightarrow>
             (case apply_lora_files set_order rnd fs COMMON_LORAS st of
                Inl e \<Rightarrow> Inl e
              | Inr (merged, out) \<Rightarrow>
                 Inr \<lparr>saved = merged_bf16 rnd merged,
                      output_path = OUTPUT_DIR @ ''/'' @ ''qwen_'' @ character_name
                                      @ ''_merged.safetensors'',
                      console = out\<rparr>)))"

section \<open>The resolution order as the specification words it\<close>

text \<open>
  The identifier of a group with the prefix \<^verbatim>\<open>lora_unet_\<close> taken off, the same with
  every underscore turned into a dot, and each of the two under the namespace
  \<^verbatim>\<open>model.diffusion_model.\<close>; every candidate is tried as it is and then with the
  suffix \<^verbatim>\<open>.weight\<close>.
\<close>

definition stripped :: "string \<Rightarrow> string" where
  "stripped lora_key =
     (if startswith lora_key ''lora_unet_'' then drop 10 lora_key else lora_key)"

definition dotted :: "string \<Rightarrow> string" where
  "dotted s = map (\<lambda>c. if c = CHR ''_'' then CHR ''.'' else c) s"

definition resolution_order :: "string \<Rightarrow> string list" where
  "resolution_order lora_key =
     concat (map (\<lambda>c. [c, c @ ''.weight''])
       [stripped lora_key, dotted (stripped lora_key),
        ''model.diffusion_model.'' @ stripped lora_key,
        ''model.diffusion_model.'' @ dotted (stripped lora_key)])"

section \<open>A small adapter and a small base\<close>

text \<open>
  The group \<^verbatim>\<open>lora_unet_a_b\<close> is a linear pair of rank 1 with alpha 2 whose target is
  \<^verbatim>\<open>a.b.weight\<close>; the group \<^verbatim>\<open>lora_unet_c\<close> has an A factor and no B factor; the
  group \<^verbatim>\<open>x\<close> is a complete pair whose target is not in the base.
\<close>

definition example_down :: tensor where
  "example_down = \<lparr>dtype = Float32, shape = [1, 2], data = [1, 2]\<rparr>"

definition example_up :: tensor where
  "example_up = \<lparr>dtype = Float32, shape = [2, 1], data = [3, 4]\<rparr>"

definition example_alpha :: tensor where
  "example_alpha = \<lparr>dtype = Float32, shape = [], data = [2]\<rparr>"

definition example_lora :: checkpoint where
  "example_lora =
     [(''lora_unet_a_b.lora_down.weight'', example_down),
      (''lora_unet_a_b.lora_up.weight'', example_up),
      (''lora_unet_a_b.alpha'', example_alpha),
      (''lora_unet_c.lora_A.weight'', example_down),
      (''x.lora_A.weight'', example_down),
      (''x.lora_B.weight'', example_up)]"

definition example_target :: tensor where
  "example_target = \<lparr>dtype = BFloat16, shape = [2, 2], data = [0, 0, 0, 1]\<rparr>"

definition example_base :: weights where
  "example_base = [''a.b.weight'' \<mapsto> example_target]"

definition example_merged :: weights where
  "example_merged =
     [''a.b.weight'' \<mapsto> \<lparr>dtype = Float32, shape = [2, 2], data = [3, 6, 4, 9]\<rparr>]"

definition example_files :: files where
  "example_files = [''p'' \<mapsto> Safetensors example_lora]"

section \<open>Notions used to state the properties of the loop\<close>

text \<open>
  The layout of a weight set: its identifiers and the shape under each. The target of
  a group and its delta at strength 1 depend on the working copy only through its
  layout, as does whether the group is applied.
\<close>

definition layout :: "weights \<Rightarrow> string \<Rightarrow> nat list option" where
  "layout merged k = map_option shape (merged k)"

definition pair_target :: "weights \<Rightarrow> string \<Rightarrow> tensor \<times> tensor \<times> rat \<Rightarrow> (string \<times> tensor) option" where
  "pair_target merged lora_key factors =
     (case factors of (down, up, scale) \<Rightarrow>
       (case resolve_key merged lora_key of
          None \<Rightarrow> None
        | Some target_key \<Rightarrow>
           (case merged target_key of
              None \<Rightarrow> None
            | Some target \<Rightarrow>
               (case lora_delta down up scale 1 (shape target) of
                  Inl _ \<Rightarrow> None
                | Inr delta \<Rightarrow>
                   if shape delta = shape target then Some (target_key, delta) else None))))"


text \<open>
  The update of line 145 where \<open>d\<close> is the delta of a group at strength 1 and \<open>s\<close> the
  strength of the call, and the deltas at strength 1 that the groups of a list add to
  one identifier \<open>k\<close>, in the order of the list.
\<close>

definition bump :: "rounding \<Rightarrow> rat \<Rightarrow> tensor \<Rightarrow> tensor \<Rightarrow> tensor" where
  "bump rnd s d t = tensor_add (to_dtype rnd (dtype d) t) (tensor_scale d s)"

definition key_delta :: "checkpoint \<Rightarrow> weights \<Rightarrow> string \<Rightarrow> string \<Rightarrow> tensor option" where
  "key_delta lora_weights merged k lora_key =
     (case read_pair lora_weights lora_key of
        Inr (Some factors) \<Rightarrow>
          (case pair_target merged lora_key factors of
             Some (target_key, d) \<Rightarrow> if target_key = k then Some d else None
           | None \<Rightarrow> None)
      | _ \<Rightarrow> None)"

definition key_deltas :: "checkpoint \<Rightarrow> weights \<Rightarrow> string \<Rightarrow> string list \<Rightarrow> tensor list" where
  "key_deltas lora_weights merged k ks = List.map_filter (key_delta lora_weights merged k) ks"

definition addl :: "rat \<Rightarrow> tensor \<Rightarrow> rat list \<Rightarrow> rat list" where
  "addl s d xs = map2 (+) xs (map (\<lambda>x. x * s) (data d))"

text \<open>An adapter in which every complete pair is a pair of matrices.\<close>

definition linear_pairs_only :: "checkpoint \<Rightarrow> bool" where
  "linear_pairs_only lora_weights =
     list_all (\<lambda>lora_key.
        case read_pair lora_weights lora_key of
          Inr (Some (down, up, scale)) \<Rightarrow> length (shape down) = 2 \<and> length (shape up) = 2
        | _ \<Rightarrow> True) (lora_keys lora_weights)"

section \<open>The contraction of a convolutional pair as the specification words it\<close>

text \<open>
  For \<open>up\<close> laid out as \<open>[n_out, r, 1, 1]\<close> and \<open>down\<close> as \<open>[r, n_in, kh, kw]\<close>, as the
  comment of line 135 has them: the sum over the rank axis, with the output-channel
  axis of \<open>up\<close> and the input-channel, height and width axes of \<open>down\<close> kept, which
  gives a tensor of shape \<open>[n_out, n_in, kh, kw]\<close>.
\<close>

definition conv_contraction :: "tensor \<Rightarrow> tensor \<Rightarrow> tensor" where
  "conv_contraction up down =
     (let n_out = shape up ! 0; r = shape down ! 0; n_in = shape down ! 1;
          kh = shape down ! 2; kw = shape down ! 3 in
      \<lparr>dtype = dtype up, shape = [n_out, n_in, kh, kw],
       data = concat (map (\<lambda>a. concat (map (\<lambda>i. concat (map (\<lambda>h. map (\<lambda>w.
                (\<Sum>l\<leftarrow>[0..<r]. data up ! (a * r + l)
                                 * data down ! (((l * n_in + i) * kh + h) * kw + w)))
                [0..<kw]) [0..<kh])) [0..<n_in])) [0..<n_out])\<rparr>)"

text \<open>A convolutional pair of rank 1 with a kernel of height 1 and width 2.\<close>

definition conv_down :: tensor where
  "conv_down = \<lparr>dtype = Float32, shape = [1, 1, 1, 2], data = [1, 2]\<rparr>"

definition conv_up :: tensor where
  "conv_up = \<lparr>dtype = Float32, shape = [1, 1, 1, 1], data = [1]\<rparr>"

definition conv_lora :: checkpoint where
  "conv_lora = [(''k.lora_down.weight'', conv_down), (''k.lora_up.weight'', conv_up)]"

definition conv_base :: weights where
  "conv_base = [''k.weight'' \<mapsto> \<lparr>dtype = Float32, shape = [1, 1, 1, 2], data = [0, 0]\<rparr>]"

section \<open>Evaluation of the example\<close>

lemmas eval_defs = apply_lora_to_weights_def lora_keys_def group_of_def startswith_def
  apply_pair_def read_pair_def select_keys_def item_def merge_pair_def resolve_key_def
  base_key_candidates_def lora_delta_def matmul_def tensor_scale_def tensor_add_def
  to_dtype_def exact_def example_down_def example_up_def example_alpha_def example_lora_def
  example_target_def example_base_def example_merged_def Let_def

lemma example_keys: "lora_keys example_lora = [''lora_unet_a_b'', ''lora_unet_c'', ''x'']"
  by (simp add: eval_defs)

lemma example_apply:
  "apply_lora_to_weights id exact example_base example_lora (1 / 2) =
     Inr \<lparr>returned = example_merged, printed = [AppliedPairs 1]\<rparr>"
  by (simp add: eval_defs upt_rec)


lemma example_linear: "linear_pairs_only example_lora"
  by (simp add: linear_pairs_only_def example_keys)
    (simp add: read_pair_def select_keys_def example_lora_def example_down_def example_up_def
      example_alpha_def item_def)

lemma example_apply_whole:
  "apply_lora_to_weights id exact example_base example_lora (1 / 2 + 1 / 2) =
     Inr \<lparr>returned = [''a.b.weight'' \<mapsto> \<lparr>dtype = Float32, shape = [2, 2], data = [6, 12, 8, 17]\<rparr>],
          printed = [AppliedPairs 1]\<rparr>"
  by (simp add: eval_defs upt_rec)

lemma example_apply_files:
  "apply_lora_files id exact example_files [(''p'', 1 / 2), (''q'', 1)] (example_base, []) =
     Inr (example_merged, [AppliedPairs 1, NotFound ''q''])"
  by (simp add: apply_lora_file_def load_file_def example_files_def example_apply)

section \<open>Casts and the final cast\<close>

lemma to_dtype_dtype: "dtype (to_dtype rnd d t) = d"
  by (simp add: to_dtype_def)

lemma to_dtype_shape: "shape (to_dtype rnd d t) = shape t"
  by (simp add: to_dtype_def)

lemma merged_bf16_apply:
  "merged_bf16 rnd w k =
     map_option (\<lambda>v. if dtype v = Float32 then to_dtype rnd BFloat16 v else v) (w k)"
  by (simp add: merged_bf16_def)

lemma merged_bf16_dom: "dom (merged_bf16 rnd w) = dom w"
  by (auto simp: merged_bf16_def dom_def)

lemma merged_bf16_idem: "merged_bf16 rnd (merged_bf16 rnd w) = merged_bf16 rnd w"
proof
  fix k
  show "merged_bf16 rnd (merged_bf16 rnd w) k = merged_bf16 rnd w k"
    by (cases "w k") (simp_all add: merged_bf16_def to_dtype_dtype)
qed

text \<open>
  C7. The cast of lines 193 and 194 is defined on every weight set and keeps its keys.
  A tensor of dtype float32 becomes a bfloat16 tensor of the same shape, its elements
  rounded by the cast; a tensor of any other dtype, bfloat16 included, is returned as
  it is. Casting the result again gives the same weight set, whatever the rounding.
\<close>

theorem finalizer_idempotent:
  "dom (merged_bf16 rnd w) = dom w
   \<and> (w k = Some v \<and> dtype v = Float32 \<longrightarrow>
        merged_bf16 rnd w k =
          Some \<lparr>dtype = BFloat16, shape = shape v, data = map (rnd BFloat16) (data v)\<rparr>)
   \<and> (w k = Some v \<and> dtype v \<noteq> Float32 \<longrightarrow> merged_bf16 rnd w k = Some v)
   \<and> merged_bf16 rnd (merged_bf16 rnd w) = merged_bf16 rnd w"
  by (simp add: merged_bf16_dom merged_bf16_idem merged_bf16_apply to_dtype_def)

theorem finalizer_idempotent_witness:
  "merged_bf16 exact
     [''a'' \<mapsto> \<lparr>dtype = Float32, shape = [2], data = [3 / 2, 2]\<rparr>,
      ''b'' \<mapsto> \<lparr>dtype = Float16, shape = [1], data = [1 / 2]\<rparr>] ''a''
     = Some \<lparr>dtype = BFloat16, shape = [2], data = [3 / 2, 2]\<rparr>
   \<and> merged_bf16 exact
     [''a'' \<mapsto> \<lparr>dtype = Float32, shape = [2], data = [3 / 2, 2]\<rparr>,
      ''b'' \<mapsto> \<lparr>dtype = Float16, shape = [1], data = [1 / 2]\<rparr>] ''b''
     = Some \<lparr>dtype = Float16, shape = [1], data = [1 / 2]\<rparr>"
  using finalizer_idempotent [of exact
      "[''a'' \<mapsto> \<lparr>dtype = Float32, shape = [2], data = [3 / 2, 2]\<rparr>,
        ''b'' \<mapsto> \<lparr>dtype = Float16, shape = [1], data = [1 / 2]\<rparr>]" "''a''"
      "\<lparr>dtype = Float32, shape = [2], data = [3 / 2, 2]\<rparr>"]
    finalizer_idempotent [of exact
      "[''a'' \<mapsto> \<lparr>dtype = Float32, shape = [2], data = [3 / 2, 2]\<rparr>,
        ''b'' \<mapsto> \<lparr>dtype = Float16, shape = [1], data = [1 / 2]\<rparr>]" "''b''"
      "\<lparr>dtype = Float16, shape = [1], data = [1 / 2]\<rparr>"]
  by (simp add: exact_def)


section \<open>The identifiers of the working copy\<close>

lemma merge_pair_dom: "dom (fst (merge_pair rnd s g f st)) = dom (fst st)"
  by (auto simp: merge_pair_def split: prod.splits option.splits sum.splits)

lemma apply_pair_dom:
  assumes "apply_pair rnd lw s g st = Inr st'"
  shows "dom (fst st') = dom (fst st)"
proof -
  from assms have "st' = st \<or> (\<exists>f. st' = merge_pair rnd s g f st)"
    by (auto simp: apply_pair_def split: sum.splits option.splits)
  then show ?thesis
    by (elim disjE exE) (simp_all only: merge_pair_dom)
qed

lemma apply_pairs_dom:
  "apply_pairs rnd lw s ks st = Inr st' \<Longrightarrow> dom (fst st') = dom (fst st)"
proof (induction ks arbitrary: st)
  case Nil
  then show ?case by simp
next
  case (Cons g ks)
  from Cons.prems obtain st1 where
    step: "apply_pair rnd lw s g st = Inr st1" and rest: "apply_pairs rnd lw s ks st1 = Inr st'"
    by (auto split: sum.splits)
  from Cons.IH [OF rest] apply_pair_dom [OF step] show ?case
    by (simp only:)
qed

lemma apply_lora_to_weights_dom:
  assumes "apply_lora_to_weights so rnd base lw s = Inr r"
  shows "dom (returned r) = dom base"
proof -
  from assms obtain n where
    "apply_pairs rnd lw s (so (lora_keys lw)) (base, 0) = Inr (returned r, n)"
    by (auto simp: apply_lora_to_weights_def split: sum.splits prod.splits)
  from apply_pairs_dom [OF this] show ?thesis
    by simp
qed

lemma apply_lora_file_dom:
  assumes "apply_lora_file so rnd fs entry st = Inr st'"
  shows "dom (fst st') = dom (fst st)"
proof -
  from assms have "fst st' = fst st
      \<or> (\<exists>lw s r. apply_lora_to_weights so rnd (fst st) lw s = Inr r \<and> fst st' = returned r)"
    by (fastforce simp: apply_lora_file_def split: prod.splits if_splits sum.splits)
  then show ?thesis
    by (elim disjE exE conjE) (simp_all add: apply_lora_to_weights_dom)
qed

lemma apply_lora_files_dom:
  "apply_lora_files so rnd fs entries st = Inr st' \<Longrightarrow> dom (fst st') = dom (fst st)"
proof (induction entries arbitrary: st)
  case Nil
  then show ?case by simp
next
  case (Cons entry entries)
  from Cons.prems obtain st1 where
    step: "apply_lora_file so rnd fs entry st = Inr st1"
    and rest: "apply_lora_files so rnd fs entries st1 = Inr st'"
    by (auto split: sum.splits)
  from Cons.IH [OF rest] apply_lora_file_dom [OF step] show ?case
    by (simp only:)
qed

text \<open>
  C3. Whenever \<^verbatim>\<open>apply_lora_to_weights\<close> returns, the weight set it returns has
  exactly the identifiers of the base it was given, whatever the adapter holds and in
  whatever order its groups are visited; and the same holds for the working weight set
  after any sequence of adapter files applied one after the other, as
  \<^verbatim>\<open>merge_loras_for_character\<close> does. No identifier is added and none is removed.
\<close>

theorem identifier_set_preserved:
  "(apply_lora_to_weights so rnd base lw s = Inr r \<longrightarrow> dom (returned r) = dom base)
   \<and> (apply_lora_files so rnd fs entries (base, out) = Inr (merged, out') \<longrightarrow>
        dom merged = dom base)"
  using apply_lora_to_weights_dom [of so rnd base lw s r]
    apply_lora_files_dom [of so rnd fs entries "(base, out)" "(merged, out')"]
  by simp

theorem identifier_set_preserved_witness:
  "apply_lora_to_weights id exact example_base example_lora (1 / 2)
     = Inr \<lparr>returned = example_merged, printed = [AppliedPairs 1]\<rparr>
   \<and> apply_lora_files id exact example_files [(''p'', 1 / 2), (''q'', 1)] (example_base, [])
     = Inr (example_merged, [AppliedPairs 1, NotFound ''q''])
   \<and> dom example_merged = dom example_base"
  using identifier_set_preserved [of id exact example_base example_lora "1 / 2"
      "\<lparr>returned = example_merged, printed = [AppliedPairs 1]\<rparr>"
      example_files "[(''p'', 1 / 2), (''q'', 1)]" "[]" example_merged
      "[AppliedPairs 1, NotFound ''q'']"]
    example_apply example_apply_files
  by simp

section \<open>Key resolution\<close>

lemma replace_underscore: "replace s ''_'' ''.'' = dotted s"
  by (induction s) (auto simp: dotted_def startswith_def)

lemma base_key_candidates_eq:
  "base_key_candidates g =
     [stripped g, dotted (stripped g),
      ''model.diffusion_model.'' @ stripped g,
      ''model.diffusion_model.'' @ dotted (stripped g)]"
  by (simp add: base_key_candidates_def stripped_def replace_underscore Let_def)

lemma find_target_find:
  "find_target m cs =
     List.find (\<lambda>k. k \<in> dom m) (concat (map (\<lambda>c. [c, c @ ''.weight'']) cs))"
  by (induction cs) (auto simp: dom_def)

lemma resolve_key_find: "resolve_key m g = List.find (\<lambda>k. k \<in> dom m) (resolution_order g)"
  by (simp only: resolve_key_def find_target_find base_key_candidates_eq resolution_order_def)

lemma unresolved_skipped:
  "resolve_key m g = None \<Longrightarrow> merge_pair rnd s g f (m, n) = (m, n)"
  by (simp add: merge_pair_def split: prod.splits)

text \<open>
  C4. The key that lines 101 to 122 resolve for a group is the first identifier of the
  base, in the order of the specification (the stripped identifier, its dotted form,
  and the two under the namespace prefix, each bare and then with \<^verbatim>\<open>.weight\<close>),
  and there is none exactly when no candidate is in the base. Being a function of the
  base and of the group, the result is the same at every attempt. A group with no
  match is skipped: once its factors and its scale have been read (lines 68 to 97,
  which come first and are the only ones that can raise), the working copy and the
  count are returned as they were.
\<close>

theorem key_resolution_first_match:
  "resolve_key merged g = List.find (\<lambda>k. k \<in> dom merged) (resolution_order g)
   \<and> (resolve_key merged g = None \<and> read_pair lw g = Inr p \<longrightarrow>
        apply_pair rnd lw s g (merged, applied) = Inr (merged, applied))"
  by (cases p) (simp_all add: resolve_key_find [symmetric] apply_pair_def unresolved_skipped)

theorem key_resolution_first_match_witness:
  "resolve_key example_base ''lora_unet_a_b'' = Some ''a.b.weight''
   \<and> resolve_key example_base ''x'' = None
   \<and> read_pair example_lora ''x'' = Inr (Some (example_down, example_up, 1))
   \<and> apply_pair exact example_lora 1 ''x'' (example_base, 0) = Inr (example_base, 0)"
  using key_resolution_first_match [of example_base "''lora_unet_a_b''"]
    key_resolution_first_match [of example_base "''x''" example_lora
      "Some (example_down, example_up, 1)" exact 1 0]
  by (simp add: resolution_order_def stripped_def dotted_def startswith_def read_pair_def
      select_keys_def example_lora_def example_base_def example_down_def example_up_def)

section \<open>The update of the target\<close>








section \<open>Adapters and factors that are missing\<close>

text \<open>
  C10. A group whose down factor is there under the convention the code selects
  (\<^verbatim>\<open>lora_down\<close> first, \<^verbatim>\<open>lora_A\<close> when there is no \<^verbatim>\<open>lora_down\<close>) and whose up
  factor under that convention (\<^verbatim>\<open>lora_up\<close>, respectively \<^verbatim>\<open>lora_B\<close>) is not in the
  adapter is skipped without an error: the count and the whole working copy are
  returned as they were.
\<close>

theorem missing_up_factor_skipped:
  assumes "(map_of lw (g @ ''.lora_down.weight'') \<noteq> None
            \<and> map_of lw (g @ ''.lora_up.weight'') = None)
         \<or> (map_of lw (g @ ''.lora_down.weight'') = None
            \<and> map_of lw (g @ ''.lora_A.weight'') \<noteq> None
            \<and> map_of lw (g @ ''.lora_B.weight'') = None)"
  shows "apply_pair rnd lw s g (merged, applied) = Inr (merged, applied)"
  using assms
  by (auto simp: apply_pair_def read_pair_def select_keys_def split: option.splits)

theorem missing_up_factor_skipped_witness:
  "map_of example_lora (''lora_unet_c'' @ ''.lora_down.weight'') = None
   \<and> map_of example_lora (''lora_unet_c'' @ ''.lora_A.weight'') = Some example_down
   \<and> map_of example_lora (''lora_unet_c'' @ ''.lora_B.weight'') = None
   \<and> apply_pair exact example_lora 1 ''lora_unet_c'' (example_base, 0) = Inr (example_base, 0)"
  using missing_up_factor_skipped [of example_lora "''lora_unet_c''" exact 1 example_base 0]
  by (simp add: example_lora_def)

text \<open>
  C9. An entry whose path does not exist only adds the warning to the console: no
  adapter is loaded, no pair is applied and no count is printed for it, the working
  weight set is the one before the step, and the entries after it are applied to that
  weight set. The same holds for the character adapter, which
  \<^verbatim>\<open>merge_loras_for_character\<close> applies first.
\<close>

theorem missing_adapter_contributes_nothing:
  assumes "fs lora_path = None"
  shows "apply_lora_file so rnd fs (lora_path, strength) (w, out)
           = Inr (w, out @ [NotFound lora_path])
    \<and> apply_lora_files so rnd fs ((lora_path, strength) # rest) (w, out)
        = apply_lora_files so rnd fs rest (w, out @ [NotFound lora_path])
    \<and> merge_loras_for_character so rnd fs name lora_path strength
        = (case load_file fs BASE_MODEL of
             Inl e \<Rightarrow> Inl e
           | Inr base_weights \<Rightarrow>
              (case apply_lora_files so rnd fs COMMON_LORAS
                      (map_of base_weights, [NotFound lora_path]) of
                 Inl e \<Rightarrow> Inl e
               | Inr (merged, out') \<Rightarrow>
                  Inr \<lparr>saved = merged_bf16 rnd merged,
                       output_path = OUTPUT_DIR @ ''/'' @ ''qwen_'' @ name
                                       @ ''_merged.safetensors'',
                       console = out'\<rparr>))"
  using assms
  by (simp add: apply_lora_file_def merge_loras_for_character_def split: sum.splits)

theorem missing_adapter_contributes_nothing_witness:
  "example_files ''q'' = None
   \<and> apply_lora_file id exact example_files (''q'', 1) (example_merged, [AppliedPairs 1])
       = Inr (example_merged, [AppliedPairs 1, NotFound ''q''])"
  using missing_adapter_contributes_nothing [of example_files "''q''" id exact 1
      example_merged "[AppliedPairs 1]"]
  by (simp add: example_files_def)

section \<open>The loop depends on the layout only\<close>

lemma tensor_scale_scale: "tensor_scale (tensor_scale t 1) s = tensor_scale t s"
  by (simp add: tensor_scale_def)

lemma tensor_scale_shape: "shape (tensor_scale t s) = shape t"
  by (simp add: tensor_scale_def)

lemma tensor_scale_dtype: "dtype (tensor_scale t s) = dtype t"
  by (simp add: tensor_scale_def)

lemma reshape_scale:
  "reshape (tensor_scale t s) sh =
     (case reshape t sh of Inl e \<Rightarrow> Inl e | Inr d \<Rightarrow> Inr (tensor_scale d s))"
  by (simp add: reshape_def tensor_scale_def)

lemma lora_delta_strength:
  "lora_delta down up scale s sh =
     (case lora_delta down up scale 1 sh of Inl e \<Rightarrow> Inl e | Inr d \<Rightarrow> Inr (tensor_scale d s))"
  by (simp add: lora_delta_def Let_def tensor_scale_scale tensor_scale_shape reshape_scale
      split: sum.splits)

lemma merge_pair_target:
  "merge_pair rnd s g f (m, n) =
     (case pair_target m g f of
        None \<Rightarrow> (m, n)
      | Some (tk, d) \<Rightarrow> (m(tk \<mapsto> bump rnd s d (the (m tk))), n + 1))"
  unfolding merge_pair_def pair_target_def bump_def
  by (subst lora_delta_strength)
    (simp add: tensor_scale_shape tensor_scale_dtype split: prod.splits option.splits sum.splits)

lemma layout_None:
  assumes "layout m = layout m'"
  shows "(m k = None) = (m' k = None)"
proof -
  from assms have "layout m k = layout m' k"
    by simp
  then show ?thesis
    by (cases "m k"; cases "m' k") (simp_all add: layout_def)
qed

lemma layout_shape:
  assumes "layout m = layout m'" and "m k = Some t"
  shows "\<exists>t'. m' k = Some t' \<and> shape t' = shape t"
proof -
  from assms(1) have "layout m k = layout m' k"
    by simp
  with assms(2) show ?thesis
    by (cases "m' k") (simp_all add: layout_def)
qed

lemma find_target_layout: "layout m = layout m' \<Longrightarrow> find_target m cs = find_target m' cs"
  by (induction cs) (simp_all add: layout_None [of m m'])

lemma pair_target_layout:
  assumes "layout m = layout m'"
  shows "pair_target m g f = pair_target m' g f"
proof (cases "resolve_key m g")
  case None
  then show ?thesis
    using find_target_layout [OF assms] by (simp add: pair_target_def resolve_key_def)
next
  case (Some tk)
  then have r': "resolve_key m' g = Some tk"
    using find_target_layout [OF assms] by (simp add: resolve_key_def)
  show ?thesis
  proof (cases "m tk")
    case None
    then have "m' tk = None"
      using layout_None [OF assms] by simp
    with None Some r' show ?thesis
      by (simp add: pair_target_def)
  next
    case (Some t)
    then obtain t' where "m' tk = Some t'" "shape t' = shape t"
      using layout_shape [OF assms] by blast
    with Some \<open>resolve_key m g = Some tk\<close> r' show ?thesis
      by (auto simp: pair_target_def split: prod.splits sum.splits)
  qed
qed

lemma pair_target_Some:
  "pair_target m g f = Some (tk, d) \<Longrightarrow> \<exists>t. m tk = Some t \<and> shape d = shape t"
  by (auto simp: pair_target_def split: prod.splits option.splits sum.splits if_splits)

lemma bump_shape: "shape (bump rnd s d t) = shape t"
  by (simp add: bump_def tensor_add_def to_dtype_def)

lemma merge_pair_layout: "layout (fst (merge_pair rnd s g f (m, n))) = layout m"
proof (cases "pair_target m g f")
  case None
  then show ?thesis by (simp add: merge_pair_target)
next
  case (Some p)
  obtain tk d where p: "p = (tk, d)" by (cases p)
  from Some p obtain t where "m tk = Some t"
    using pair_target_Some by blast
  with Some p show ?thesis
    by (auto simp: merge_pair_target layout_def bump_shape fun_eq_iff)
qed

lemma apply_pair_cases:
  "apply_pair rnd lw s g (m, n) =
     (case read_pair lw g of
        Inl e \<Rightarrow> Inl e
      | Inr None \<Rightarrow> Inr (m, n)
      | Inr (Some f) \<Rightarrow> Inr (merge_pair rnd s g f (m, n)))"
  by (simp add: apply_pair_def)

lemma apply_pair_layout:
  assumes "apply_pair rnd lw s g (m, n) = Inr (m', n')"
  shows "layout m' = layout m"
proof -
  from assms have "(m', n') = (m, n) \<or> (\<exists>f. merge_pair rnd s g f (m, n) = (m', n'))"
    by (auto simp: apply_pair_cases split: sum.splits option.splits)
  then show ?thesis
    by (elim disjE exE) (simp, metis fst_conv merge_pair_layout)
qed

lemma apply_pairs_layout:
  "apply_pairs rnd lw s ks (m, n) = Inr (m', n') \<Longrightarrow> layout m' = layout m"
proof (induction ks arbitrary: m n)
  case Nil
  then show ?case by simp
next
  case (Cons g ks)
  from Cons.prems obtain m1 n1 where
    step: "apply_pair rnd lw s g (m, n) = Inr (m1, n1)"
    and rest: "apply_pairs rnd lw s ks (m1, n1) = Inr (m', n')"
    by (auto split: sum.splits)
  from Cons.IH [OF rest] apply_pair_layout [OF step] show ?case
    by (simp only:)
qed






section \<open>Strengths add up\<close>

lemma map2_add_commute:
  "map2 (+) (map2 (+) xs as) bs = map2 (+) (map2 (+) xs bs) (as :: rat list)"
proof (induction xs arbitrary: as bs)
  case Nil
  then show ?case by simp
next
  case (Cons x xs)
  then show ?case
    by (cases as; cases bs) simp_all
qed

lemma map2_add_scaled:
  "map2 (+) (map2 (+) xs (map (\<lambda>x. x * s1) ys)) (map (\<lambda>x. x * s2) ys)
     = map2 (+) xs (map (\<lambda>x. x * (s1 + s2)) (ys :: rat list))"
proof (induction xs arbitrary: ys)
  case Nil
  then show ?case by simp
next
  case (Cons x xs)
  then show ?case
    by (cases ys) (simp_all add: algebra_simps)
qed

lemma addl_commute: "addl s d (addl s' d' xs) = addl s' d' (addl s d xs)"
  by (simp add: addl_def map2_add_commute)

lemma addl_add: "addl s2 d (addl s1 d xs) = addl (s1 + s2) d xs"
  by (simp add: addl_def map2_add_scaled)

lemma addl_fold: "addl c d (fold (addl s) ds xs) = fold (addl s) ds (addl c d xs)"
  by (induction ds arbitrary: xs) (simp_all add: addl_commute)

lemma fold_addl_add:
  "fold (addl s2) ds (fold (addl s1) ds xs) = fold (addl (s1 + s2)) ds xs"
proof (induction ds arbitrary: xs)
  case Nil
  then show ?case by simp
next
  case (Cons d ds)
  have "fold (addl s2) (d # ds) (fold (addl s1) (d # ds) xs)
      = fold (addl s2) ds (addl s2 d (fold (addl s1) ds (addl s1 d xs)))"
    by simp
  also have "\<dots> = fold (addl s2) ds (fold (addl s1) ds (addl s2 d (addl s1 d xs)))"
    by (simp only: addl_fold)
  also have "\<dots> = fold (addl (s1 + s2)) ds (addl (s1 + s2) d xs)"
    by (simp only: addl_add Cons.IH)
  finally show ?case
    by simp
qed

lemma map_exact: "map (exact d) xs = xs"
  by (induction xs) (simp_all add: exact_def)

lemma bump_exact:
  "bump exact s d t = \<lparr>dtype = dtype d, shape = shape t, data = addl s d (data t)\<rparr>"
  by (simp add: bump_def tensor_add_def to_dtype_def tensor_scale_def addl_def map_exact)

lemma fold_bump_shape: "shape (fold (bump exact s) ds t) = shape t"
  by (induction ds arbitrary: t) (simp_all add: bump_exact)

lemma fold_bump_dtype:
  "dtype (fold (bump exact s) ds t) = (if ds = [] then dtype t else dtype (last ds))"
  by (induction ds arbitrary: t) (simp_all add: bump_exact)

lemma fold_bump_data: "data (fold (bump exact s) ds t) = fold (addl s) ds (data t)"
  by (induction ds arbitrary: t) (simp_all add: bump_exact)

lemma fold_bump_add:
  "fold (bump exact s2) ds (fold (bump exact s1) ds t) = fold (bump exact (s1 + s2)) ds t"
  by (rule tensor.equality)
    (simp_all add: fold_bump_shape fold_bump_dtype fold_bump_data fold_addl_add)

lemma key_deltas_Cons:
  "key_deltas lw m0 k (g # ks) =
     (case key_delta lw m0 k g of None \<Rightarrow> key_deltas lw m0 k ks
      | Some d \<Rightarrow> d # key_deltas lw m0 k ks)"
  by (simp add: key_deltas_def split: option.splits)

lemma apply_pair_proj:
  assumes "apply_pair rnd lw s g (m, n) = Inr (m1, n1)" and "layout m = layout m0"
  shows "m1 k = (case key_delta lw m0 k g of None \<Rightarrow> m k
                 | Some d \<Rightarrow> map_option (bump rnd s d) (m k))"
proof (cases "read_pair lw g")
  case (Inl e)
  with assms(1) show ?thesis by (simp add: apply_pair_cases)
next
  case (Inr p)
  show ?thesis
  proof (cases p)
    case None
    with Inr assms(1) show ?thesis by (simp add: apply_pair_cases key_delta_def)
  next
    case (Some f)
    with Inr assms(1) have mp: "merge_pair rnd s g f (m, n) = (m1, n1)"
      by (simp add: apply_pair_cases)
    have pt: "pair_target m g f = pair_target m0 g f"
      by (rule pair_target_layout [OF assms(2)])
    show ?thesis
    proof (cases "pair_target m0 g f")
      case None
      with mp pt Inr Some show ?thesis
        by (simp add: merge_pair_target key_delta_def)
    next
      case (Some q)
      obtain tk d where q: "q = (tk, d)" by (cases q)
      from Some q pt obtain t where "m tk = Some t"
        using pair_target_Some [of m g f tk d] by auto
      with mp pt Some q Inr \<open>p = Some f\<close> show ?thesis
        by (auto simp: merge_pair_target key_delta_def)
    qed
  qed
qed

lemma apply_pairs_proj:
  "apply_pairs rnd lw s ks (m, n) = Inr (m', n') \<Longrightarrow> layout m = layout m0 \<Longrightarrow>
     m' k = map_option (fold (bump rnd s) (key_deltas lw m0 k ks)) (m k)"
proof (induction ks arbitrary: m n)
  case Nil
  then show ?case by (simp add: key_deltas_def option.map_ident)
next
  case (Cons g ks)
  from Cons.prems(1) obtain m1 n1 where
    step: "apply_pair rnd lw s g (m, n) = Inr (m1, n1)"
    and rest: "apply_pairs rnd lw s ks (m1, n1) = Inr (m', n')"
    by (auto split: sum.splits)
  have "layout m1 = layout m0"
    using apply_pair_layout [OF step] Cons.prems(2) by simp
  from Cons.IH [OF rest this] apply_pair_proj [OF step Cons.prems(2), of k] show ?case
    by (simp add: key_deltas_Cons option.map_comp o_def split: option.splits)
qed

lemma apply_pairs_error:
  "(apply_pairs rnd lw s ks st = Inl e) = (apply_pairs rnd' lw s' ks st' = Inl e)"
proof (induction ks arbitrary: st st')
  case Nil
  then show ?case by simp
next
  case (Cons g ks)
  show ?case
  proof (cases "read_pair lw g")
    case (Inl e')
    then show ?thesis by (simp add: apply_pair_def)
  next
    case (Inr p)
    then obtain st1 st1' where "apply_pair rnd lw s g st = Inr st1"
      "apply_pair rnd' lw s' g st' = Inr st1'"
      by (cases p) (simp_all add: apply_pair_def)
    with Cons.IH [of st1 st1'] show ?thesis
      by simp
  qed
qed

lemma apply_pairs_additive:
  assumes "apply_pairs exact lw s1 ks (m, n) = Inr (m1, n1)"
    and "apply_pairs exact lw s2 ks (m1, n') = Inr (m2, n2)"
    and "apply_pairs exact lw (s1 + s2) ks (m, n'') = Inr (m3, n3)"
  shows "m2 = m3"
proof
  fix k
  have l1: "layout m1 = layout m"
    by (rule apply_pairs_layout [OF assms(1)])
  have "m1 k = map_option (fold (bump exact s1) (key_deltas lw m k ks)) (m k)"
    by (rule apply_pairs_proj [OF assms(1) refl])
  moreover have "m2 k = map_option (fold (bump exact s2) (key_deltas lw m k ks)) (m1 k)"
    by (rule apply_pairs_proj [OF assms(2) l1])
  moreover have "m3 k = map_option (fold (bump exact (s1 + s2)) (key_deltas lw m k ks)) (m k)"
    by (rule apply_pairs_proj [OF assms(3) refl])
  ultimately show "m2 k = m3 k"
    by (simp add: option.map_comp o_def fold_bump_add)
qed

lemma strength_additive:
  "(case apply_lora_to_weights so exact base lw s1 of
      Inl e \<Rightarrow> Inl e
    | Inr r1 \<Rightarrow>
       (case apply_lora_to_weights so exact (returned r1) lw s2 of
          Inl e \<Rightarrow> Inl e
        | Inr r2 \<Rightarrow> Inr (returned r2)))
   = (case apply_lora_to_weights so exact base lw (s1 + s2) of
        Inl e \<Rightarrow> Inl e
      | Inr r \<Rightarrow> Inr (returned r))"
proof (cases "apply_pairs exact lw s1 (so (lora_keys lw)) (base, 0)")
  case (Inl e)
  moreover from Inl have "apply_pairs exact lw (s1 + s2) (so (lora_keys lw)) (base, 0) = Inl e"
    using apply_pairs_error by blast
  ultimately show ?thesis
    by (simp add: apply_lora_to_weights_def)
next
  case (Inr st1)
  obtain m1 n1 where st1: "st1 = (m1, n1)" by (cases st1)
  have no_err: "apply_pairs exact lw s (so (lora_keys lw)) st \<noteq> Inl e" for s st e
    using Inr apply_pairs_error [of exact lw s "so (lora_keys lw)" st e exact s1 "(base, 0)"]
    by simp
  obtain m2 n2 where r2: "apply_pairs exact lw s2 (so (lora_keys lw)) (m1, 0) = Inr (m2, n2)"
    using no_err [of s2 "(m1, 0)"]
    by (cases "apply_pairs exact lw s2 (so (lora_keys lw)) (m1, 0)") auto
  obtain m3 n3 where
    r3: "apply_pairs exact lw (s1 + s2) (so (lora_keys lw)) (base, 0) = Inr (m3, n3)"
    using no_err [of "s1 + s2" "(base, 0)"]
    by (cases "apply_pairs exact lw (s1 + s2) (so (lora_keys lw)) (base, 0)") auto
  from Inr st1 have r1: "apply_pairs exact lw s1 (so (lora_keys lw)) (base, 0) = Inr (m1, n1)"
    by simp
  have "m2 = m3"
    by (rule apply_pairs_additive [OF r1 r2 r3])
  with r1 r2 r3 show ?thesis
    by (simp add: apply_lora_to_weights_def)
qed

text \<open>
  C6. In exact arithmetic (no rounding in the products, the sums and the casts),
  applying an adapter of matrix pairs with strength \<open>s1\<close> and applying it again, to
  the weight set returned, with strength \<open>s2\<close> returns the weight set that one
  application with strength \<open>s1 + s2\<close> returns; and where line 92 or 94 raises in one
  of the runs it raises in the other. The groups are visited in the same order in the
  three calls. The proof does not use that the pairs are matrices.
\<close>

theorem strengths_add_up:
  assumes "linear_pairs_only lw"
  shows "(case apply_lora_to_weights so exact base lw s1 of
      Inl e \<Rightarrow> Inl e
    | Inr r1 \<Rightarrow>
       (case apply_lora_to_weights so exact (returned r1) lw s2 of
          Inl e \<Rightarrow> Inl e
        | Inr r2 \<Rightarrow> Inr (returned r2)))
   = (case apply_lora_to_weights so exact base lw (s1 + s2) of
        Inl e \<Rightarrow> Inl e
      | Inr r \<Rightarrow> Inr (returned r))"
  by (rule strength_additive)

theorem strengths_add_up_witness:
  "linear_pairs_only example_lora
   \<and> (case apply_lora_to_weights id exact example_base example_lora (1 / 2) of
        Inl e \<Rightarrow> Inl e
      | Inr r1 \<Rightarrow>
         (case apply_lora_to_weights id exact (returned r1) example_lora (1 / 2) of
            Inl e \<Rightarrow> Inl e
          | Inr r2 \<Rightarrow> Inr (returned r2)))
     = (Inr [''a.b.weight'' \<mapsto> \<lparr>dtype = Float32, shape = [2, 2], data = [6, 12, 8, 17]\<rparr>]
         :: error + weights)"
  using strengths_add_up [OF example_linear, where so = id and base = example_base
      and ?s1.0 = "1 / 2" and ?s2.0 = "1 / 2"]
    example_linear
  by (simp only: example_apply_whole sum.case call.simps simp_thms)

section \<open>Convolutional pairs\<close>

lemma conv_einsum_shape:
  assumes "shape up = [n_out, r, 1, 1]" and "shape down = [r, n_in, kh, kw]"
    and "dtype up = dtype down"
  shows "\<exists>xs. einsum_orhw_rich_oicw up down =
           Inr \<lparr>dtype = dtype up, shape = [n_out, n_in, kh, 1], data = xs\<rparr>"
  using assms by (simp add: einsum_orhw_rich_oicw_def broadcastable_def)

lemma conv_pair_skipped:
  assumes "shape up = [n_out, r, 1, 1]" and "shape down = [r, n_in, kh, kw]"
    and "dtype up = dtype down" and "kw \<noteq> 1" and "0 < n_out * n_in * kh"
  shows "lora_delta down up scale s [n_out, n_in, kh, kw] = Inl ReshapeFailed"
proof -
  from conv_einsum_shape [OF assms(1-3)] obtain xs where
    "einsum_orhw_rich_oicw up down =
       Inr \<lparr>dtype = dtype up, shape = [n_out, n_in, kh, 1], data = xs\<rparr>"
    by blast
  with assms show ?thesis
    by (simp add: lora_delta_def tensor_scale_def reshape_def)
qed

text \<open>
  C1 fails on the code. For a pair laid out as line 135 says, the contraction of the
  claim keeps the width axis of \<open>down\<close>; the subscripts of line 136 sum it away and
  put the last axis of \<open>up\<close>, of size 1, in its place. For the pair of rank 1 with a
  kernel of width 2: the contraction of the claim has shape \<open>[1, 1, 1, 2]\<close> and
  elements 1 and 2, line 136 gives shape \<open>[1, 1, 1, 1]\<close> and the element 3, the
  reshape to the shape of the target raises, and the pair is skipped: the count is 0
  and the target is unchanged.
\<close>

theorem conv_width_summed_away:
  "conv_contraction conv_up conv_down
     = \<lparr>dtype = Float32, shape = [1, 1, 1, 2], data = [1, 2]\<rparr>
   \<and> einsum_orhw_rich_oicw conv_up conv_down
     = Inr \<lparr>dtype = Float32, shape = [1, 1, 1, 1], data = [3]\<rparr>
   \<and> lora_delta conv_down conv_up 1 1 [1, 1, 1, 2] = Inl ReshapeFailed
   \<and> apply_lora_to_weights id exact conv_base conv_lora 1
     = Inr \<lparr>returned = conv_base, printed = [AppliedPairs 0]\<rparr>"
  by (simp add: conv_contraction_def einsum_orhw_rich_oicw_def broadcastable_def
      broadcast_size_def bidx_def reshape_def conv_down_def conv_up_def conv_lora_def
      conv_base_def eval_defs upt_rec)

end
